theory Spec2Isabelle
  imports Main
begin

section \<open>The file system\<close>

text \<open>
  The program (\<^verbatim>\<open>packages/create-repo/src/index.ts\<close>) works on the file system through
  Node's synchronous \<^verbatim>\<open>fs\<close> calls. A file-system node is a regular file with its bytes
  or a directory with its entries in the order \<^verbatim>\<open>readdirSync\<close> lists them; symbolic
  links and special files are outside the model. A path is the list of its components
  below the root directory.

  The template directories (\<^verbatim>\<open>../templates\<close> next to the script) are only ever read.
  They are passed around as trees of their own; the destination is a path into the
  file-system state that every operation takes and returns. The templates are thereby
  taken to lie apart from the target directory.
\<close>

datatype node = File string | Dir "(string \<times> node) list"

type_synonym path = "string list"

datatype error =
    ENOENT | ENOTDIR | EISDIR | EEXIST
  | SyntaxError
  | UnhandledCaseError string

text \<open>A call returns normally with the new state, or throws with the state reached so far.\<close>

datatype outcome = Done node | Thrown error node

fun state_of :: "outcome \<Rightarrow> node" where
  "state_of (Done fs) = fs"
| "state_of (Thrown e fs) = fs"

fun and_then :: "outcome \<Rightarrow> (node \<Rightarrow> outcome) \<Rightarrow> outcome" where
  "and_then (Done fs) f = f fs"
| "and_then (Thrown e fs) f = Thrown e fs"

fun resolve :: "node \<Rightarrow> path \<Rightarrow> error + node"
  and resolve_in :: "(string \<times> node) list \<Rightarrow> string \<Rightarrow> path \<Rightarrow> error + node" where
  "resolve n [] = Inr n"
| "resolve (File c) (x # xs) = Inl ENOTDIR"
| "resolve (Dir es) (x # xs) = resolve_in es x xs"
| "resolve_in [] x xs = Inl ENOENT"
| "resolve_in ((k, c) # es) x xs = (if k = x then resolve c xs else resolve_in es x xs)"

definition lookup :: "node \<Rightarrow> path \<Rightarrow> node option" where
  "lookup fs p = (case resolve fs p of Inl e \<Rightarrow> None | Inr n \<Rightarrow> Some n)"

definition existsSync :: "node \<Rightarrow> path \<Rightarrow> bool" where
  "existsSync fs p = (case resolve fs p of Inl e \<Rightarrow> False | Inr n \<Rightarrow> True)"

text \<open>
  \<open>put fs p n\<close> stores \<open>n\<close> at path \<open>p\<close>: it replaces the node there, or adds a new
  last entry to the parent directory. Where the parent is missing or is a file the
  state stays as it is (the calls below check that first).
\<close>

fun put :: "node \<Rightarrow> path \<Rightarrow> node \<Rightarrow> node"
  and put_in :: "(string \<times> node) list \<Rightarrow> string \<Rightarrow> path \<Rightarrow> node \<Rightarrow> (string \<times> node) list" where
  "put n [] v = v"
| "put (File c) (x # xs) v = File c"
| "put (Dir es) (x # xs) v = Dir (put_in es x xs v)"
| "put_in [] x xs v = (if xs = [] then [(x, v)] else [])"
| "put_in ((k, c) # es) x xs v =
     (if k = x then (k, put c xs v) # es else (k, c) # put_in es x xs v)"

fun remove :: "node \<Rightarrow> path \<Rightarrow> node"
  and remove_in :: "(string \<times> node) list \<Rightarrow> string \<Rightarrow> path \<Rightarrow> (string \<times> node) list" where
  "remove n [] = n"
| "remove (File c) (x # xs) = File c"
| "remove (Dir es) (x # xs) = Dir (remove_in es x xs)"
| "remove_in [] x xs = []"
| "remove_in ((k, c) # es) x xs =
     (if k = x then (if xs = [] then es else (k, remove c xs) # es)
      else (k, c) # remove_in es x xs)"

definition readdirSync :: "node \<Rightarrow> path \<Rightarrow> error + string list" where
  "readdirSync fs p =
     (case resolve fs p of
        Inl e \<Rightarrow> Inl e
      | Inr (File c) \<Rightarrow> Inl ENOTDIR
      | Inr (Dir es) \<Rightarrow> Inr (map fst es))"

definition readFileSync :: "node \<Rightarrow> path \<Rightarrow> error + string" where
  "readFileSync fs p =
     (case resolve fs p of
        Inl e \<Rightarrow> Inl e
      | Inr (File c) \<Rightarrow> Inr c
      | Inr (Dir es) \<Rightarrow> Inl EISDIR)"

definition writeFileSync :: "string \<Rightarrow> node \<Rightarrow> path \<Rightarrow> outcome" where
  "writeFileSync c fs p =
     (case resolve fs p of
        Inr (Dir es) \<Rightarrow> Thrown EISDIR fs
      | Inr (File old) \<Rightarrow> Done (put fs p (File c))
      | Inl ENOENT \<Rightarrow>
          (case resolve fs (butlast p) of
             Inr (Dir es) \<Rightarrow> Done (put fs p (File c))
           | Inr (File old) \<Rightarrow> Thrown ENOTDIR fs
           | Inl e \<Rightarrow> Thrown e fs)
      | Inl e \<Rightarrow> Thrown e fs)"

text \<open>
  \<^verbatim>\<open>fs.copyFileSync(src, dest)\<close> with the bytes \<open>c\<close> of the template file \<open>src\<close>
  (which \<^verbatim>\<open>statSync\<close> has just found to be a regular file).
\<close>

definition copyFileSync :: "string \<Rightarrow> node \<Rightarrow> path \<Rightarrow> outcome" where
  "copyFileSync c fs p = writeFileSync c fs p"

definition mkdirSync :: "node \<Rightarrow> path \<Rightarrow> outcome" where
  "mkdirSync fs p =
     (case resolve fs p of
        Inr n \<Rightarrow> Thrown EEXIST fs
      | Inl ENOENT \<Rightarrow>
          (case resolve fs (butlast p) of
             Inr (Dir es) \<Rightarrow> Done (put fs p (Dir []))
           | Inr (File old) \<Rightarrow> Thrown ENOTDIR fs
           | Inl e \<Rightarrow> Thrown e fs)
      | Inl e \<Rightarrow> Thrown e fs)"

text \<open>\<^verbatim>\<open>fs.mkdirSync(p, { recursive: true })\<close>: every missing prefix of \<open>p\<close> in turn.\<close>

fun mkdirs :: "path list \<Rightarrow> node \<Rightarrow> outcome" where
  "mkdirs [] fs = Done fs"
| "mkdirs (p # ps) fs =
     (case resolve fs p of
        Inr (Dir es) \<Rightarrow> mkdirs ps fs
      | Inr (File c) \<Rightarrow> Thrown (if ps = [] then EEXIST else ENOTDIR) fs
      | Inl e \<Rightarrow> and_then (mkdirSync fs p) (mkdirs ps))"

definition mkdirSync_recursive :: "node \<Rightarrow> path \<Rightarrow> outcome" where
  "mkdirSync_recursive fs p = mkdirs (map (\<lambda>n. take n p) [1 ..< Suc (length p)]) fs"

subsection \<open>Paths\<close>

text \<open>
  \<^verbatim>\<open>path.join(p, s)\<close> for an absolute, normalised \<open>p\<close>: the components of \<open>s\<close> are
  appended one by one, an empty one or \<^verbatim>\<open>.\<close> dropped, \<^verbatim>\<open>..\<close> going up one level.
\<close>

fun split_path :: "string \<Rightarrow> string list" where
  "split_path [] = [[]]"
| "split_path (c # cs) =
     (if c = CHR ''/'' then [] # split_path cs
      else (case split_path cs of [] \<Rightarrow> [[c]] | s # ss \<Rightarrow> (c # s) # ss))"

fun normalize_path :: "path \<Rightarrow> string list \<Rightarrow> path" where
  "normalize_path acc [] = acc"
| "normalize_path acc (c # cs) =
     (if c = [] \<or> c = ''.'' then normalize_path acc cs
      else if c = ''..'' then normalize_path (butlast acc) cs
      else normalize_path (acc @ [c]) cs)"

definition path_join :: "path \<Rightarrow> string \<Rightarrow> path" where
  "path_join p s = normalize_path p (split_path s)"

section \<open>JSON values and the merge of two JSON files\<close>

text \<open>
  A value as \<^verbatim>\<open>JSON.parse\<close> returns it. The type \<open>'n\<close> stands for the number values,
  taken up to the comparison a \<^verbatim>\<open>Set\<close> makes of them (SameValueZero). An object is the
  list of its own properties in enumeration order.
\<close>

datatype 'n json =
    JNull | JBool bool | JNum 'n | JStr string
  | JArr "'n json list"
  | JObj "(string \<times> 'n json) list"

text \<open>
  What the program takes from the JavaScript runtime and from lodash without defining
  it: \<^verbatim>\<open>String.prototype.trim\<close>, \<^verbatim>\<open>JSON.parse\<close> (\<open>None\<close> is its
  \<^verbatim>\<open>SyntaxError\<close>), \<^verbatim>\<open>JSON.stringify(v, null, 2)\<close>, and the two parts of lodash's
  \<^verbatim>\<open>mergeWith\<close> that the customizer of this program does not decide:
  \<^item> \<open>lodash_mergeDeep key objValue srcValue\<close>: the value lodash assigns to \<open>key\<close> when
    the source value is an array or an object and the customizer has returned
    \<^verbatim>\<open>undefined\<close> (its recursive merge); \<open>None\<close> when it assigns nothing;
  \<^item> \<open>lodash_mergeOther object source\<close>: the result when the two parsed files are not
    both objects.
\<close>

record 'n runtime =
  String_trim :: "string \<Rightarrow> string"
  JSON_parse :: "string \<Rightarrow> 'n json option"
  JSON_stringify :: "'n json \<Rightarrow> string"
  lodash_mergeDeep :: "string \<Rightarrow> 'n json option \<Rightarrow> 'n json \<Rightarrow> 'n json option"
  lodash_mergeOther :: "'n json \<Rightarrow> 'n json \<Rightarrow> 'n json"

fun isObject :: "'n json \<Rightarrow> bool" where
  "isObject (JArr xs) = True"
| "isObject (JObj ps) = True"
| "isObject v = False"

text \<open>
  A \<^verbatim>\<open>Set\<close> holds a primitive value once. Arrays and objects are compared by
  identity, and every array or object that \<^verbatim>\<open>JSON.parse\<close> builds is a new one, so two of
  them are never the same element.
\<close>

definition sameValueZero :: "'n json \<Rightarrow> 'n json \<Rightarrow> bool" where
  "sameValueZero u v = (\<not> isObject u \<and> u = v)"

definition Set_add :: "'n json list \<Rightarrow> 'n json \<Rightarrow> 'n json list" where
  "Set_add s v = (if list_ex (\<lambda>u. sameValueZero u v) s then s else s @ [v])"

text \<open>\<^verbatim>\<open>Array.from(new Set(xs))\<close>: the elements in insertion order.\<close>

definition Array_from_Set :: "'n json list \<Rightarrow> 'n json list" where
  "Array_from_Set xs = fold (\<lambda>v s. Set_add s v) xs []"

text \<open>\<^verbatim>\<open>a.concat(b)\<close>: an array argument is spread, any other value is one element.\<close>

fun concat_js :: "'n json list \<Rightarrow> 'n json \<Rightarrow> 'n json list" where
  "concat_js a (JArr b) = a @ b"
| "concat_js a v = a @ [v]"

text \<open>
  The customizer \<^verbatim>\<open>(a, b) => { if (isArray(a)) return Array.from(new Set(a.concat(b))); }\<close>.
  \<open>None\<close> is \<^verbatim>\<open>undefined\<close>: as the first argument, the destination has no own
  property of that name (an inherited one is a function, which is no array either); as
  the result, the function has fallen off its end.
\<close>

fun customizer :: "'n json option \<Rightarrow> 'n json \<Rightarrow> 'n json option" where
  "customizer (Some (JArr a)) b = Some (JArr (Array_from_Set (concat_js a b)))"
| "customizer a b = None"

text \<open>lodash reads the destination through \<^verbatim>\<open>safeGet\<close>, which hides \<^verbatim>\<open>__proto__\<close>.\<close>

definition safeGet :: "(string \<times> 'n json) list \<Rightarrow> string \<Rightarrow> 'n json option" where
  "safeGet object key = (if key = ''__proto__'' then None else map_of object key)"

text \<open>
  An array index is a canonical decimal numeral below \<open>2 ^ 32 - 1\<close>. Own properties are
  enumerated with the array indices first, in ascending order, then the other names in
  the order of their creation.
\<close>

definition digit_val :: "char \<Rightarrow> int option" where
  "digit_val c =
     (let n = (of_char c :: int) in if 48 \<le> n \<and> n \<le> 57 then Some (n - 48) else None)"

fun decimal :: "int \<Rightarrow> string \<Rightarrow> int option" where
  "decimal acc [] = Some acc"
| "decimal acc (c # cs) =
     (case digit_val c of None \<Rightarrow> None | Some d \<Rightarrow> decimal (10 * acc + d) cs)"

definition array_index :: "string \<Rightarrow> int option" where
  "array_index key =
     (if key = [] \<or> (hd key = CHR ''0'' \<and> key \<noteq> ''0'') then None
      else (case decimal 0 key of
              None \<Rightarrow> None
            | Some n \<Rightarrow> if n < 2 ^ 32 - 1 then Some n else None))"

fun insert_index :: "int \<Rightarrow> string \<Rightarrow> 'v \<Rightarrow> (string \<times> 'v) list \<Rightarrow> (string \<times> 'v) list" where
  "insert_index i key v [] = [(key, v)]"
| "insert_index i key v ((k, w) # ps) =
     (case array_index k of
        None \<Rightarrow> (key, v) # (k, w) # ps
      | Some j \<Rightarrow> if i < j then (key, v) # (k, w) # ps else (k, w) # insert_index i key v ps)"

text \<open>\<^verbatim>\<open>object[key] = value\<close> on the own properties.\<close>

definition assign :: "(string \<times> 'v) list \<Rightarrow> string \<Rightarrow> 'v \<Rightarrow> (string \<times> 'v) list" where
  "assign object key v =
     (if key \<in> set (map fst object)
      then map (\<lambda>(k, w). if k = key then (k, v) else (k, w)) object
      else (case array_index key of
              None \<Rightarrow> object @ [(key, v)]
            | Some i \<Rightarrow> insert_index i key v object))"

text \<open>
  lodash's \<^verbatim>\<open>baseMerge\<close> on two objects, one step for each own property of the source:
  an array or object goes through \<^verbatim>\<open>baseMergeDeep\<close>, where the customizer's result is
  assigned if there is one; any other value is assigned as the customizer returns it, or
  as it is. (At the key \<^verbatim>\<open>__proto__\<close> \<^verbatim>\<open>baseMergeDeep\<close> reads the source through
  \<^verbatim>\<open>safeGet\<close> as well; the customizer returns \<^verbatim>\<open>undefined\<close> there in any case, its
  first argument being \<^verbatim>\<open>undefined\<close>.)
\<close>

definition mergeKey ::
  "'n runtime \<Rightarrow> string \<times> 'n json \<Rightarrow> (string \<times> 'n json) list \<Rightarrow> (string \<times> 'n json) list" where
  "mergeKey rt = (\<lambda>(key, srcValue) object.
     (if isObject srcValue then
        (case customizer (safeGet object key) srcValue of
           Some newValue \<Rightarrow> assign object key newValue
         | None \<Rightarrow>
             (case lodash_mergeDeep rt key (map_of object key) srcValue of
                None \<Rightarrow> object
              | Some newValue \<Rightarrow> assign object key newValue))
      else
        (case customizer (safeGet object key) srcValue of
           Some newValue \<Rightarrow> assign object key newValue
         | None \<Rightarrow> assign object key srcValue)))"

definition baseMerge ::
  "'n runtime \<Rightarrow> (string \<times> 'n json) list \<Rightarrow> (string \<times> 'n json) list \<Rightarrow> (string \<times> 'n json) list" where
  "baseMerge rt object source = fold (mergeKey rt) source object"

fun mergeWith :: "'n runtime \<Rightarrow> 'n json \<Rightarrow> 'n json \<Rightarrow> 'n json" where
  "mergeWith rt (JObj object) (JObj source) = JObj (baseMerge rt object source)"
| "mergeWith rt object source = lodash_mergeOther rt object source"

definition mergeJsonFile :: "'n runtime \<Rightarrow> path \<Rightarrow> string \<Rightarrow> node \<Rightarrow> outcome" where
  "mergeJsonFile rt existing template fs =
     (case readFileSync fs existing of
        Inl e \<Rightarrow> Thrown e fs
      | Inr existingBytes \<Rightarrow>
          (case JSON_parse rt (String_trim rt existingBytes) of
             None \<Rightarrow> Thrown SyntaxError fs
           | Some existingFileContent \<Rightarrow>
               (case JSON_parse rt (String_trim rt template) of
                  None \<Rightarrow> Thrown SyntaxError fs
                | Some templateFileContent \<Rightarrow>
                    writeFileSync
                      (JSON_stringify rt (mergeWith rt existingFileContent templateFileContent))
                      fs existing)))"

text \<open>
  \<^verbatim>\<open>appendFiles\<close> reads both files, splits them into lines and prints the two lists;
  it writes nothing. The console is not part of the state.
\<close>

definition appendFiles :: "path \<Rightarrow> string \<Rightarrow> node \<Rightarrow> outcome" where
  "appendFiles existing template fs =
     (case readFileSync fs existing of
        Inl e \<Rightarrow> Thrown e fs
      | Inr existingBytes \<Rightarrow> Done fs)"

definition mergeFiles :: "(string \<times> string) list" where
  "mergeFiles =
     [(''.eslintrc'', ''json''),
      (''package.json'', ''json''),
      (''lerna.json'', ''json''),
      (''.gitignore'', ''append''),
      (''.prettierignore'', ''append'')]"

definition isMergeable :: "string \<Rightarrow> bool" where
  "isMergeable file = (file \<in> set (map fst mergeFiles))"

section \<open>Composing a template\<close>

text \<open>\<^verbatim>\<open>file.replace(/^\._/, ".")\<close> and \<^verbatim>\<open>override.replace(/^with-/, "")\<close>.\<close>

fun actualFileName :: "string \<Rightarrow> string" where
  "actualFileName (c # d # rest) =
     (if c = CHR ''.'' \<and> d = CHR ''_'' then CHR ''.'' # rest else c # d # rest)"
| "actualFileName file = file"

definition strip_with :: "string \<Rightarrow> string" where
  "strip_with override = (if take 5 override = ''with-'' then drop 5 override else override)"

text \<open>
  \<^verbatim>\<open>new UnhandledCaseError(variable, message)\<close>: the message given, or, were it empty,
  one built from the variable (a string, or \<^verbatim>\<open>undefined\<close>).
\<close>

definition new_UnhandledCaseError :: "string option \<Rightarrow> string \<Rightarrow> error" where
  "new_UnhandledCaseError variable message =
     UnhandledCaseError
       (if message \<noteq> [] then message
        else ''Unhandled case whith variable of type ''
          @ (case variable of None \<Rightarrow> ''undefined'' | Some v \<Rightarrow> ''string'')
          @ '' with value ''
          @ (case variable of None \<Rightarrow> ''undefined'' | Some v \<Rightarrow> v))"

text \<open>The \<^verbatim>\<open>switch (mergeStrategy)\<close> of \<^verbatim>\<open>copyTemplate\<close>.\<close>

definition switch_mergeStrategy ::
  "'n runtime \<Rightarrow> string option \<Rightarrow> path \<Rightarrow> string \<Rightarrow> node \<Rightarrow> outcome" where
  "switch_mergeStrategy rt mergeStrategy targetFilePath templateBytes fs =
     (if mergeStrategy = Some ''json'' then mergeJsonFile rt targetFilePath templateBytes fs
      else if mergeStrategy = Some ''append'' then appendFiles targetFilePath templateBytes fs
      else Thrown (new_UnhandledCaseError mergeStrategy ''Unhandled file merge strategy'') fs)"

text \<open>
  \<^verbatim>\<open>copyTemplate(template, dest, options)\<close>, with the tree found at \<^verbatim>\<open>template\<close>.
  \<open>copyTemplate_files\<close> is \<^verbatim>\<open>files.forEach\<close>, \<open>copyTemplate_file\<close> its callback on
  one entry, and \<open>copyTemplate_overrides\<close> is \<^verbatim>\<open>overrides.forEach\<close> with its callback.
  The call for an override leaves \<^verbatim>\<open>options\<close> out, so the parameter takes its default
  \<^verbatim>\<open>[]\<close>.
\<close>

function (sequential) copyTemplate :: "'n runtime \<Rightarrow> node \<Rightarrow> path \<Rightarrow> string list \<Rightarrow> node \<Rightarrow> outcome"
  and copyTemplate_files ::
    "'n runtime \<Rightarrow> (string \<times> node) list \<Rightarrow> path \<Rightarrow> string list \<Rightarrow> node \<Rightarrow> outcome"
  and copyTemplate_file ::
    "'n runtime \<Rightarrow> string \<Rightarrow> node \<Rightarrow> path \<Rightarrow> string list \<Rightarrow> node \<Rightarrow> outcome"
  and copyTemplate_overrides ::
    "'n runtime \<Rightarrow> (string \<times> node) list \<Rightarrow> path \<Rightarrow> string list \<Rightarrow> node \<Rightarrow> outcome"
where
  "copyTemplate rt (File c) dest options fs = Thrown ENOTDIR fs"
| "copyTemplate rt (Dir files) dest options fs = copyTemplate_files rt files dest options fs"
| "copyTemplate_files rt [] dest options fs = Done fs"
| "copyTemplate_files rt ((file, t) # files) dest options fs =
     (case copyTemplate_file rt file t dest options fs of
        Done fs' \<Rightarrow> copyTemplate_files rt files dest options fs'
      | Thrown e fs' \<Rightarrow> Thrown e fs')"
| "copyTemplate_file rt file (Dir entries) dest options fs =
     (if file = ''.tsukemono'' then copyTemplate_overrides rt entries dest options fs
      else
        (case (if \<not> existsSync fs (path_join dest (actualFileName file))
               then mkdirSync fs (path_join dest (actualFileName file)) else Done fs) of
           Done fs' \<Rightarrow>
             copyTemplate rt (Dir entries) (path_join dest (actualFileName file)) options fs'
         | Thrown e fs' \<Rightarrow> Thrown e fs'))"
| "copyTemplate_file rt file (File c) dest options fs =
     (if \<not> existsSync fs (path_join dest (actualFileName file))
         \<or> \<not> isMergeable (actualFileName file)
      then copyFileSync c fs (path_join dest (actualFileName file))
      else switch_mergeStrategy rt (map_of mergeFiles (actualFileName file))
             (path_join dest (actualFileName file)) c fs)"
| "copyTemplate_overrides rt [] dest options fs = Done fs"
| "copyTemplate_overrides rt ((override, File c) # overrides) dest options fs =
     copyTemplate_overrides rt overrides dest options fs"
| "copyTemplate_overrides rt ((override, Dir entries) # overrides) dest options fs =
     (if strip_with override \<in> set options
      then
        (case copyTemplate rt (Dir entries) dest [] fs of
           Done fs' \<Rightarrow> copyTemplate_overrides rt overrides dest options fs'
         | Thrown e fs' \<Rightarrow> Thrown e fs')
      else copyTemplate_overrides rt overrides dest options fs)"
  by pat_completeness auto

text \<open>Every call goes down the template tree.\<close>

termination
  apply (relation "measure (\<lambda>x. case x of
      Inl (Inl (rt, t, r)) \<Rightarrow> 2 * size t
    | Inl (Inr (rt, files, r)) \<Rightarrow> 2 * size_list (size_prod (\<lambda>n. 0) size) files
    | Inr (Inl (rt, file, t, r)) \<Rightarrow> 2 * size t + 1
    | Inr (Inr (rt, overrides, r)) \<Rightarrow> 2 * size_list (size_prod (\<lambda>n. 0) size) overrides)")
  apply simp_all
  done

section \<open>The orchestrator\<close>

text \<open>
  \<^verbatim>\<open>emptyDir(dir)\<close>: every entry of the listing is unlinked, a directory after it has
  been emptied itself. The walk follows the tree that the listing was read from.
\<close>

fun emptyDir_files :: "path \<Rightarrow> (string \<times> node) list \<Rightarrow> node \<Rightarrow> node" where
  "emptyDir_files dir [] fs = fs"
| "emptyDir_files dir ((file, File c) # files) fs =
     emptyDir_files dir files (remove fs (dir @ [file]))"
| "emptyDir_files dir ((file, Dir entries) # files) fs =
     emptyDir_files dir files
       (remove (emptyDir_files (dir @ [file]) entries fs) (dir @ [file]))"

definition emptyDir :: "node \<Rightarrow> path \<Rightarrow> outcome" where
  "emptyDir fs dir =
     (case resolve fs dir of
        Inl e \<Rightarrow> Done fs
      | Inr (File c) \<Rightarrow> Thrown ENOTDIR fs
      | Inr (Dir entries) \<Rightarrow> Done (emptyDir_files dir entries fs))"

text \<open>The choices of the multi-select prompt, each with its initial selection.\<close>

definition OPTIONS :: "(string \<times> bool) list" where
  "OPTIONS = [(''eslint'', True), (''prettier'', False), (''commitlint'', False)]"

text \<open>
  What the user answers to the three prompts: the project name, whether to clear a
  non-empty target, and the options selected. A prompt that is not reached is not read.
\<close>

record answers =
  ans_name :: string
  ans_yes :: bool
  ans_options :: "string list"

text \<open>
  \<^verbatim>\<open>copyTemplate(path.join(templatesRootDir, name), ...)\<close>, with the entries of the
  templates directory: \<^verbatim>\<open>readdirSync\<close> throws where there is no such template. The
  name is \<^verbatim>\<open>repo-base\<close> or \<^verbatim>\<open>with-\<close> and an option of the prompt, one path component.
\<close>

definition copyTemplate_named ::
  "'n runtime \<Rightarrow> (string \<times> node) list \<Rightarrow> string \<Rightarrow> path \<Rightarrow> string list \<Rightarrow> node \<Rightarrow> outcome" where
  "copyTemplate_named rt templates name dest options fs =
     (case map_of templates name of
        None \<Rightarrow> Thrown ENOENT fs
      | Some t \<Rightarrow> copyTemplate rt t dest options fs)"

text \<open>The loop \<^verbatim>\<open>options.forEach\<close> of \<^verbatim>\<open>init\<close>, with the variable \<^verbatim>\<open>mergedOptions\<close>.\<close>

fun init_forEach ::
  "'n runtime \<Rightarrow> (string \<times> node) list \<Rightarrow> path \<Rightarrow> string list \<Rightarrow> string list \<Rightarrow> node \<Rightarrow> outcome" where
  "init_forEach rt templates root [] mergedOptions fs = Done fs"
| "init_forEach rt templates root (option # options) mergedOptions fs =
     (case copyTemplate_named rt templates (''with-'' @ option) root mergedOptions fs of
        Done fs' \<Rightarrow> init_forEach rt templates root options (mergedOptions @ [option]) fs'
      | Thrown e fs' \<Rightarrow> Thrown e fs')"

text \<open>\<^verbatim>\<open>init\<close> from the multi-select prompt on.\<close>

definition init_compose ::
  "'n runtime \<Rightarrow> (string \<times> node) list \<Rightarrow> path \<Rightarrow> string list \<Rightarrow> node \<Rightarrow> outcome" where
  "init_compose rt templates root options fs =
     (case copyTemplate_named rt templates ''repo-base'' root options fs of
        Done fs' \<Rightarrow> init_forEach rt templates root options [] fs'
      | Thrown e fs' \<Rightarrow> Thrown e fs')"

text \<open>
  \<^verbatim>\<open>init\<close>, with the working directory, the first positional argument (if any) and the
  answers. The target directory is the argument, or the project name asked for when
  there is none (or an empty one).
\<close>

definition init_targetDir :: "string option \<Rightarrow> answers \<Rightarrow> string" where
  "init_targetDir argv0 ans =
     (case argv0 of
        None \<Rightarrow> ans_name ans
      | Some arg \<Rightarrow> if arg = [] then ans_name ans else arg)"

definition init ::
  "'n runtime \<Rightarrow> (string \<times> node) list \<Rightarrow> path \<Rightarrow> string option \<Rightarrow> answers \<Rightarrow> node \<Rightarrow> outcome" where
  "init rt templates cwd argv0 ans fs =
     (let root = path_join cwd (init_targetDir argv0 ans)
      in
        if \<not> existsSync fs root then
          (case mkdirSync_recursive fs root of
             Done fs' \<Rightarrow> init_compose rt templates root (ans_options ans) fs'
           | Thrown e fs' \<Rightarrow> Thrown e fs')
        else
          (case readdirSync fs root of
             Inl e \<Rightarrow> Thrown e fs
           | Inr existing \<Rightarrow>
               if existing \<noteq> [] then
                 (if ans_yes ans then
                    (case emptyDir fs root of
                       Done fs' \<Rightarrow> init_compose rt templates root (ans_options ans) fs'
                     | Thrown e fs' \<Rightarrow> Thrown e fs')
                  else Done fs)
               else init_compose rt templates root (ans_options ans) fs))"

section \<open>Notions used to state the properties\<close>

text \<open>
  The first-seen-order union of the specification: every element once, at the place of
  its first occurrence. The second function drops the repetitions of primitive values
  only and lets every array and object stand.
\<close>

fun first_seen :: "'a list \<Rightarrow> 'a list" where
  "first_seen [] = []"
| "first_seen (x # xs) = x # removeAll x (first_seen xs)"

fun first_seen_primitive :: "'n json list \<Rightarrow> 'n json list" where
  "first_seen_primitive [] = []"
| "first_seen_primitive (x # xs) =
     x # (if isObject x then first_seen_primitive xs
          else removeAll x (first_seen_primitive xs))"

text \<open>
  A plan is a list of templates to compose, each with the options to pass;
  \<open>compose_plan\<close> composes them in turn and stops at the first that throws. The plan of
  the specification for a selection of options: the base template with no option, then
  \<^verbatim>\<open>with-<option>\<close> for each option with the options before it.
\<close>

fun compose_plan ::
  "'n runtime \<Rightarrow> (string \<times> node) list \<Rightarrow> path \<Rightarrow> (string \<times> string list) list \<Rightarrow> node \<Rightarrow> outcome" where
  "compose_plan rt templates root [] fs = Done fs"
| "compose_plan rt templates root ((name, applied) # plan) fs =
     (case copyTemplate_named rt templates name root applied fs of
        Done fs' \<Rightarrow> compose_plan rt templates root plan fs'
      | Thrown e fs' \<Rightarrow> Thrown e fs')"

definition specified_plan :: "string list \<Rightarrow> (string \<times> string list) list" where
  "specified_plan options =
     (''repo-base'', [])
     # map (\<lambda>i. (''with-'' @ options ! i, take i options)) [0 ..< length options]"

text \<open>
  A name as a directory listing has it: not empty, not \<^verbatim>\<open>.\<close> or \<^verbatim>\<open>..\<close>, without a
  slash. A plain tree has such names, no two alike in one directory, none starting with
  \<^verbatim>\<open>._\<close>, and no directory called \<^verbatim>\<open>.tsukemono\<close>.
\<close>

definition valid_name :: "string \<Rightarrow> bool" where
  "valid_name name =
     (name \<noteq> [] \<and> name \<noteq> ''.'' \<and> name \<noteq> ''..'' \<and> CHR ''/'' \<notin> set name)"

fun is_Dir :: "node \<Rightarrow> bool" where
  "is_Dir (Dir entries) = True"
| "is_Dir (File c) = False"

fun plain :: "node \<Rightarrow> bool"
  and plain_entries :: "(string \<times> node) list \<Rightarrow> bool" where
  "plain (File c) = True"
| "plain (Dir entries) = (distinct (map fst entries) \<and> plain_entries entries)"
| "plain_entries [] = True"
| "plain_entries ((name, t) # entries) =
     (valid_name name \<and> take 2 name \<noteq> ''._''
      \<and> \<not> (is_Dir t \<and> name = ''.tsukemono'')
      \<and> plain t \<and> plain_entries entries)"

text \<open>A template tree with every directory called \<^verbatim>\<open>.tsukemono\<close> taken out, at any depth.\<close>

fun without_overrides :: "node \<Rightarrow> node"
  and without_overrides_in :: "(string \<times> node) list \<Rightarrow> (string \<times> node) list" where
  "without_overrides (File c) = File c"
| "without_overrides (Dir entries) = Dir (without_overrides_in entries)"
| "without_overrides_in [] = []"
| "without_overrides_in ((name, File c) # entries) = (name, File c) # without_overrides_in entries"
| "without_overrides_in ((name, Dir sub) # entries) =
     (if name = ''.tsukemono'' then without_overrides_in entries
      else (name, Dir (without_overrides_in sub)) # without_overrides_in entries)"

section \<open>Examples\<close>

text \<open>
  A runtime to run the definitions on: it trims nothing, parses the three JSON texts
  below and no other, prints every value as \<^verbatim>\<open>{}\<close>, lets the source value win in a
  deep merge and keeps the destination when the operands are not two objects.
\<close>

definition files_lib_bin :: string where
  \<open>files_lib_bin = ''{"files":["lib","bin"]}''\<close>

definition files_bin_src :: string where
  \<open>files_bin_src = ''{"files":["bin","src"]}''\<close>

definition overrides_one :: string where
  \<open>overrides_one = ''{"overrides":[{}]}''\<close>

definition example_runtime :: "int runtime" where
  "example_runtime =
     \<lparr> String_trim = (\<lambda>s. s),
       JSON_parse = map_of
         [(files_lib_bin, JObj [(''files'', JArr [JStr ''lib'', JStr ''bin''])]),
          (files_bin_src, JObj [(''files'', JArr [JStr ''bin'', JStr ''src''])]),
          (overrides_one, JObj [(''overrides'', JArr [JObj []])])],
       JSON_stringify = (\<lambda>v. ''{}''),
       lodash_mergeDeep = (\<lambda>key objValue srcValue. Some srcValue),
       lodash_mergeOther = (\<lambda>object source. object) \<rparr>"

definition example_answers :: answers where
  "example_answers =
     \<lparr> ans_name = ''tsuke-project'', ans_yes = False, ans_options = [''eslint''] \<rparr>"

text \<open>A project directory with three files in it, and an empty one.\<close>

definition example_home :: node where
  "example_home =
     Dir [(''home'', Dir [(''proj'', Dir [(''.gitignore'', File ''dist''),
                                         (''notes.txt'', File ''keep me''),
                                         (''package.json'', File files_lib_bin)])])]"

definition example_empty :: node where
  "example_empty = Dir [(''home'', Dir [(''proj'', Dir [])])]"

text \<open>
  A templates directory: the base template with an override for \<^verbatim>\<open>eslint\<close>, which
  holds an override directory of its own, and the template of the option.
\<close>

definition example_overrides :: "(string \<times> node) list" where
  "example_overrides =
     [(''with-eslint'',
         Dir [(''.eslintignore'', File ''dist''),
              (''.tsukemono'',
                 Dir [(''with-eslint'', Dir [(''nested.txt'', File ''never'')])])])]"

definition example_templates :: "(string \<times> node) list" where
  "example_templates =
     [(''repo-base'',
         Dir [(''._gitignore'', File ''node_modules''),
              (''package.json'', File files_lib_bin),
              (''.tsukemono'', Dir example_overrides)]),
      (''with-eslint'',
         Dir [(''package.json'', File files_bin_src),
              (''.eslintrc'', File overrides_one)])]"

definition example_plain :: node where
  "example_plain =
     Dir [(''README.md'', File ''hello''),
          (''src'', Dir [(''index.ts'', File ''export {}'')])]"

section \<open>Properties\<close>

subsection \<open>Paths and the file-system calls\<close>

lemma resolve_in_map_of:
  "resolve_in es x xs = (case map_of es x of None \<Rightarrow> Inl ENOENT | Some c \<Rightarrow> resolve c xs)"
  by (induction es) auto

lemma resolve_append:
  "resolve fs p = Inr n \<Longrightarrow> resolve fs (p @ q) = resolve n q"
  "resolve_in es x xs = Inr n \<Longrightarrow> resolve_in es x (xs @ q) = resolve n q"
  by (induction fs p and es x xs rule: resolve_resolve_in.induct) (auto split: if_splits)

lemma resolve_error:
  "resolve fs p = Inl e \<Longrightarrow> e = ENOENT \<or> e = ENOTDIR"
  "resolve_in es x xs = Inl e \<Longrightarrow> e = ENOENT \<or> e = ENOTDIR"
  by (induction fs p and es x xs rule: resolve_resolve_in.induct) (auto split: if_splits)

lemma put_put:
  "put (put fs p a) p b = put fs p b"
  "put_in (put_in es x xs a) x xs b = put_in es x xs b"
  by (induction fs p a and es x xs a rule: put_put_in.induct) auto

lemma put_append:
  "resolve fs p = Inr n \<Longrightarrow> put fs (p @ q) v = put fs p (put n q v)"
  "resolve_in es x xs = Inr n \<Longrightarrow> put_in es x (xs @ q) v = put_in es x xs (put n q v)"
  by (induction fs p and es x xs rule: resolve_resolve_in.induct) (auto split: if_splits)

lemma resolve_put:
  "resolve fs p = Inr n \<Longrightarrow> resolve (put fs p v) p = Inr v"
  "resolve_in es x xs = Inr n \<Longrightarrow> resolve_in (put_in es x xs v) x xs = Inr v"
  by (induction fs p and es x xs rule: resolve_resolve_in.induct) (auto split: if_splits)

lemma put_same:
  "resolve fs p = Inr n \<Longrightarrow> put fs p n = fs"
  "resolve_in es x xs = Inr n \<Longrightarrow> put_in es x xs n = es"
  by (induction fs p and es x xs rule: resolve_resolve_in.induct) (auto split: if_splits)

lemma put_in_new: "map_of ds x = None \<Longrightarrow> put_in ds x [] v = ds @ [(x, v)]"
  by (induction ds) auto

lemma map_of_put_in: "map_of (put_in ds x [] v) y = (if y = x then Some v else map_of ds y)"
  by (induction ds) auto

lemma lookup_Some: "lookup fs p = Some n \<longleftrightarrow> resolve fs p = Inr n"
  by (simp add: lookup_def split: sum.split)

lemma existsSync_lookup: "existsSync fs p \<longleftrightarrow> lookup fs p \<noteq> None"
  by (simp add: lookup_def existsSync_def split: sum.split)

lemma resolve_child:
  "resolve fs q = Inr (Dir ds) \<Longrightarrow>
   resolve fs (q @ [x]) = (case map_of ds x of None \<Rightarrow> Inl ENOENT | Some c \<Rightarrow> Inr c)"
  by (simp add: resolve_append(1) resolve_in_map_of split: option.split)

lemma lookup_put_same: "lookup fs p = Some n \<Longrightarrow> lookup (put fs p v) p = Some v"
  by (simp add: lookup_Some resolve_put(1))

lemma put_child:
  "resolve fs q = Inr (Dir ds) \<Longrightarrow> put fs (q @ [x]) v = put fs q (Dir (put_in ds x [] v))"
  by (simp add: put_append(1))

lemma put_new_child:
  assumes "resolve fs q = Inr (Dir ds)" and "map_of ds x = None"
  shows "put fs (q @ [x]) v = put fs q (Dir (ds @ [(x, v)]))"
  using assms by (simp add: put_child put_in_new)

lemma lookup_put_child:
  assumes "lookup fs q = Some (Dir ds)"
  shows "lookup (put fs (q @ [x]) v) (q @ [y]) = (if y = x then Some v else lookup fs (q @ [y]))"
proof -
  from assms have r: "resolve fs q = Inr (Dir ds)" by (simp add: lookup_Some)
  then have "resolve (put fs q (Dir (put_in ds x [] v))) q = Inr (Dir (put_in ds x [] v))"
    by (rule resolve_put(1))
  then have "resolve (put fs (q @ [x]) v) (q @ [y])
      = (case map_of (put_in ds x [] v) y of None \<Rightarrow> Inl ENOENT | Some c \<Rightarrow> Inr c)"
    using r by (simp add: put_child resolve_child)
  with r show ?thesis
    by (simp add: lookup_def resolve_child map_of_put_in split: option.split)
qed

lemma resolve_put_new_child:
  assumes "resolve fs q = Inr (Dir ds)"
  shows "resolve (put fs (q @ [x]) v) (q @ [x]) = Inr v"
  using lookup_put_child [of fs q ds x v x] assms by (simp add: lookup_Some)

lemma lookup_put_new:
  assumes "lookup fs p = None" and "lookup fs (butlast p) = Some (Dir ds)"
  shows "lookup (put fs p v) p = Some v"
proof -
  from assms(1) have "p \<noteq> []" by (auto simp: lookup_def)
  then have p: "p = butlast p @ [last p]" by simp
  from lookup_put_child [OF assms(2), of "last p" v "last p"] p show ?thesis by simp
qed

lemma writeFileSync_file:
  "lookup fs p = Some (File old) \<Longrightarrow> writeFileSync c fs p = Done (put fs p (File c))"
  by (simp add: writeFileSync_def lookup_Some)

lemma writeFileSync_new:
  assumes "lookup fs p = None" and "lookup fs (butlast p) = Some (Dir ds)"
  shows "writeFileSync c fs p = Done (put fs p (File c))"
proof -
  from assms(1) have "p \<noteq> []" by (auto simp: lookup_def)
  then have p: "p = butlast p @ [last p]" by simp
  from assms(2) have r: "resolve fs (butlast p) = Inr (Dir ds)" by (simp add: lookup_Some)
  from resolve_child [OF r, of "last p"] p assms(1)
  have "resolve fs p = Inl ENOENT"
    by (auto simp: lookup_def split: option.splits)
  with r show ?thesis by (simp add: writeFileSync_def)
qed

lemma mkdirSync_new:
  assumes "resolve fs q = Inr (Dir ds)" and "map_of ds x = None"
  shows "mkdirSync fs (q @ [x]) = Done (put fs (q @ [x]) (Dir []))"
  using assms by (simp add: mkdirSync_def resolve_child)

lemma split_path_plain: "CHR ''/'' \<notin> set s \<Longrightarrow> split_path s = [s]"
  by (induction s) auto

lemma path_join_plain:
  "CHR ''/'' \<notin> set name \<Longrightarrow> name \<noteq> [] \<Longrightarrow> name \<noteq> ''.'' \<Longrightarrow> name \<noteq> ''..'' \<Longrightarrow>
   path_join dest name = dest @ [name]"
  by (simp add: path_join_def split_path_plain)

lemma actualFileName_plain: "take 2 name \<noteq> ''._'' \<Longrightarrow> actualFileName name = name"
  by (cases name rule: actualFileName.cases) auto


lemmas copyTemplate_induct =
  copyTemplate_copyTemplate_files_copyTemplate_file_copyTemplate_overrides.induct

text \<open>
  The callback on a file entry whose destination is absent in an existing directory, or
  is a regular file with a name that has no merge strategy: the bytes are written.
\<close>

lemma copyTemplate_file_writes:
  assumes "target = path_join dest (actualFileName fname)"
    and "lookup fs target = None \<and> (\<exists>ds. lookup fs (butlast target) = Some (Dir ds))
         \<or> (\<exists>old. lookup fs target = Some (File old)) \<and> \<not> isMergeable (actualFileName fname)"
  shows "copyTemplate_file rt fname (File c) dest options fs = Done (put fs target (File c))
    \<and> lookup (put fs target (File c)) target = Some (File c)"
  using assms
  by (auto simp: existsSync_lookup copyFileSync_def writeFileSync_file writeFileSync_new
      lookup_put_same lookup_put_new)

lemma copyTemplate_one_file_writes:
  assumes "target = path_join dest (actualFileName fname)"
    and "lookup fs target = None \<and> (\<exists>ds. lookup fs (butlast target) = Some (Dir ds))
         \<or> (\<exists>old. lookup fs target = Some (File old)) \<and> \<not> isMergeable (actualFileName fname)"
  shows "copyTemplate_file rt fname (File c) dest options fs = Done (put fs target (File c))
    \<and> copyTemplate rt (Dir [(fname, File c)]) dest options fs = Done (put fs target (File c))
    \<and> lookup (put fs target (File c)) target = Some (File c)"
proof -
  from copyTemplate_file_writes [OF assms, of rt c options]
  have w: "copyTemplate_file rt fname (File c) dest options fs = Done (put fs target (File c))"
    and l: "lookup (put fs target (File c)) target = Some (File c)"
    by blast+
  from w have "copyTemplate rt (Dir [(fname, File c)]) dest options fs
      = Done (put fs target (File c))"
    by (simp del: copyTemplate_file.simps)
  with w l show ?thesis by blast
qed

subsection \<open>Files without a merge strategy\<close>

text \<open>
  Claim C1 says that an existing destination file whose name is not in the merge table
  is left as it is. It is not: \<^verbatim>\<open>notes.txt\<close> of the example project holds the
  template's bytes after the template has been composed.
\<close>

theorem existing_file_kept_counterexample:
  "\<not> isMergeable ''notes.txt''
   \<and> lookup example_home [''home'', ''proj'', ''notes.txt''] = Some (File ''keep me'')
   \<and> lookup (state_of (copyTemplate example_runtime
          (Dir [(''notes.txt'', File ''from the template'')])
          [''home'', ''proj''] [] example_home)) [''home'', ''proj'', ''notes.txt'']
     = Some (File ''from the template'')"
  by code_simp

text \<open>
  Claim C1, amended. For every file entry of the template whose name (after the renaming
  of a leading \<^verbatim>\<open>._\<close>) is not in the merge table and whose destination exists as a
  regular file, the callback of \<^verbatim>\<open>copyTemplate\<close> returns normally and has replaced the
  contents of the destination by the bytes of the template file; so does \<^verbatim>\<open>copyTemplate\<close>
  on the template that holds this entry alone.
\<close>

theorem copyTemplate_file_replaces_existing:
  assumes "target = path_join dest (actualFileName fname)"
    and "\<not> isMergeable (actualFileName fname)"
    and "lookup fs target = Some (File old)"
  shows "copyTemplate_file rt fname (File c) dest options fs = Done (put fs target (File c))
         \<and> copyTemplate rt (Dir [(fname, File c)]) dest options fs
           = Done (put fs target (File c))
         \<and> lookup (put fs target (File c)) target = Some (File c)"
proof -
  from assms(2,3)
  have "lookup fs target = None \<and> (\<exists>ds. lookup fs (butlast target) = Some (Dir ds))
    \<or> (\<exists>old. lookup fs target = Some (File old)) \<and> \<not> isMergeable (actualFileName fname)"
    by simp
  with assms(1) show ?thesis
    by (rule copyTemplate_one_file_writes)
qed

theorem copyTemplate_file_replaces_existing_witness:
  "\<not> isMergeable (actualFileName ''notes.txt'')
   \<and> lookup example_home [''home'', ''proj'', ''notes.txt''] = Some (File ''keep me'')
   \<and> copyTemplate_file example_runtime ''notes.txt'' (File ''from the template'')
        [''home'', ''proj''] [''eslint''] example_home
     = Done (put example_home [''home'', ''proj'', ''notes.txt''] (File ''from the template''))
   \<and> lookup (put example_home [''home'', ''proj'', ''notes.txt''] (File ''from the template''))
        [''home'', ''proj'', ''notes.txt'']
     = Some (File ''from the template'')"
proof -
  have t: "[''home'', ''proj'', ''notes.txt'']
      = path_join [''home'', ''proj''] (actualFileName ''notes.txt'')"
    by code_simp
  have m: "\<not> isMergeable (actualFileName ''notes.txt'')" by code_simp
  have l: "lookup example_home [''home'', ''proj'', ''notes.txt''] = Some (File ''keep me'')"
    by code_simp
  from copyTemplate_file_replaces_existing [OF t m l] m l show ?thesis by blast
qed

text \<open>
  Claim C2. For every file entry of the template, if the destination is absent (in an
  existing directory), or is a regular file whose name is not in the merge table, the
  callback of \<^verbatim>\<open>copyTemplate\<close> writes the bytes of the template file to the destination,
  over whatever it held; so does \<^verbatim>\<open>copyTemplate\<close> on the template that holds this
  entry alone.
\<close>

theorem copyTemplate_file_copies:
  assumes "target = path_join dest (actualFileName fname)"
    and "lookup fs target = None \<and> (\<exists>ds. lookup fs (butlast target) = Some (Dir ds))
         \<or> (\<exists>old. lookup fs target = Some (File old)) \<and> \<not> isMergeable (actualFileName fname)"
  shows "copyTemplate_file rt fname (File c) dest options fs = Done (put fs target (File c))
         \<and> copyTemplate rt (Dir [(fname, File c)]) dest options fs
           = Done (put fs target (File c))
         \<and> lookup (put fs target (File c)) target = Some (File c)"
  using assms by (rule copyTemplate_one_file_writes)

theorem copyTemplate_file_copies_witness:
  "lookup example_home [''home'', ''proj'', ''LICENSE''] = None
   \<and> lookup example_home [''home'', ''proj'']
     = Some (Dir [(''.gitignore'', File ''dist''), (''notes.txt'', File ''keep me''),
                  (''package.json'', File files_lib_bin)])
   \<and> copyTemplate_file example_runtime ''LICENSE'' (File ''MIT'') [''home'', ''proj''] []
        example_home
     = Done (put example_home [''home'', ''proj'', ''LICENSE''] (File ''MIT''))
   \<and> lookup (put example_home [''home'', ''proj'', ''LICENSE''] (File ''MIT''))
        [''home'', ''proj'', ''LICENSE'']
     = Some (File ''MIT'')"
proof -
  have t: "[''home'', ''proj'', ''LICENSE'']
      = path_join [''home'', ''proj''] (actualFileName ''LICENSE'')"
    by code_simp
  have n: "lookup example_home [''home'', ''proj'', ''LICENSE''] = None"
    by code_simp
  have d: "lookup example_home [''home'', ''proj'']
     = Some (Dir [(''.gitignore'', File ''dist''), (''notes.txt'', File ''keep me''),
                  (''package.json'', File files_lib_bin)])"
    by (simp add: lookup_def example_home_def)
  from n d have w:
    "lookup example_home [''home'', ''proj'', ''LICENSE''] = None
       \<and> (\<exists>ds. lookup example_home (butlast [''home'', ''proj'', ''LICENSE'']) = Some (Dir ds))
     \<or> (\<exists>old. lookup example_home [''home'', ''proj'', ''LICENSE''] = Some (File old))
       \<and> \<not> isMergeable (actualFileName ''LICENSE'')"
    by simp
  from copyTemplate_file_copies [OF t w] n d show ?thesis by blast
qed

subsection \<open>The merge of two JSON files\<close>

lemma list_ex_sameValueZero:
  "list_ex (\<lambda>u. sameValueZero u v) s \<longleftrightarrow> \<not> isObject v \<and> v \<in> set s"
  by (auto simp: list_ex_iff sameValueZero_def)

lemma fold_Set_add:
  "fold (\<lambda>v s. Set_add s v) xs acc
     = acc @ filter (\<lambda>v. \<not> (\<not> isObject v \<and> v \<in> set acc)) (first_seen_primitive xs)"
proof (induction xs arbitrary: acc)
  case Nil
  show ?case by simp
next
  case (Cons x xs)
  show ?case
  proof (cases "\<not> isObject x \<and> x \<in> set acc")
    case True
    then have "Set_add acc x = acc"
      by (simp add: Set_add_def list_ex_sameValueZero)
    moreover from True
    have "filter (\<lambda>v. \<not> (\<not> isObject v \<and> v \<in> set acc)) (removeAll x (first_seen_primitive xs))
        = filter (\<lambda>v. \<not> (\<not> isObject v \<and> v \<in> set acc)) (first_seen_primitive xs)"
      by (auto simp: removeAll_filter_not_eq intro: filter_cong)
    ultimately show ?thesis using True by (simp add: Cons.IH)
  next
    case False
    then have s: "Set_add acc x = acc @ [x]"
      by (auto simp: Set_add_def list_ex_sameValueZero)
    have "filter (\<lambda>v. \<not> (\<not> isObject v \<and> v \<in> set (acc @ [x]))) (first_seen_primitive xs)
        = filter (\<lambda>v. \<not> (\<not> isObject v \<and> v \<in> set acc))
            (if isObject x then first_seen_primitive xs
             else removeAll x (first_seen_primitive xs))"
      by (auto simp: removeAll_filter_not_eq intro: filter_cong)
    with False s show ?thesis by (simp add: Cons.IH)
  qed
qed

lemma Array_from_Set_first_seen: "Array_from_Set xs = first_seen_primitive xs"
  by (simp add: Array_from_Set_def fold_Set_add)

lemma first_seen_primitive_all:
  "\<forall>x \<in> set xs. \<not> isObject x \<Longrightarrow> first_seen_primitive xs = first_seen xs"
  by (induction xs) auto

lemma map_of_insert_index:
  "key \<notin> set (map fst object) \<Longrightarrow>
   map_of (insert_index i key v object) k = (if k = key then Some v else map_of object k)"
  by (induction object) (auto split: option.split)

lemma map_of_assign:
  "map_of (assign object key v) k = (if k = key then Some v else map_of object k)"
proof (cases "key \<in> set (map fst object)")
  case True
  have "map_of (map (\<lambda>(k, w). if k = key then (k, v) else (k, w)) object) k
      = (if k = key then map_option (\<lambda>w. v) (map_of object key) else map_of object k)"
    by (induction object) auto
  moreover from True obtain w where "map_of object key = Some w"
    by (cases "map_of object key") (auto simp: map_of_eq_None_iff)
  ultimately show ?thesis using True by (simp add: assign_def)
next
  case False
  then have "map_of object key = None"
    by (simp add: map_of_eq_None_iff)
  with False show ?thesis
    by (auto simp: assign_def map_of_insert_index map_add_def split: option.split)
qed

lemma mergeKey_other:
  "key \<noteq> k \<Longrightarrow> map_of (mergeKey rt (key, srcValue) object) k = map_of object k"
  by (simp add: mergeKey_def map_of_assign split: option.split)

lemma mergeKey_arrays:
  assumes "k \<noteq> ''__proto__''" and "map_of object k = Some (JArr xs)"
  shows "map_of (mergeKey rt (k, JArr ys) object) k = Some (JArr (Array_from_Set (xs @ ys)))"
  using assms by (simp add: mergeKey_def safeGet_def map_of_assign)

lemma fold_mergeKey_other:
  "k \<notin> set (map fst source) \<Longrightarrow> map_of (fold (mergeKey rt) source object) k = map_of object k"
  by (induction source arbitrary: object) (auto simp: mergeKey_other)

lemma baseMerge_arrays:
  assumes "distinct (map fst source)" and "k \<noteq> ''__proto__''"
    and "map_of object k = Some (JArr xs)" and "map_of source k = Some (JArr ys)"
  shows "map_of (baseMerge rt object source) k = Some (JArr (Array_from_Set (xs @ ys)))"
  using assms unfolding baseMerge_def
proof (induction source arbitrary: object)
  case Nil
  then show ?case by simp
next
  case (Cons entry source)
  obtain key srcValue where entry: "entry = (key, srcValue)" by (cases entry)
  show ?case
  proof (cases "key = k")
    case True
    with Cons.prems entry have "srcValue = JArr ys" and "k \<notin> set (map fst source)"
      by auto
    with Cons.prems entry True show ?thesis
      by (simp add: fold_mergeKey_other mergeKey_arrays)
  next
    case False
    with Cons.prems entry
    have "map_of (mergeKey rt entry object) k = Some (JArr xs)" and "map_of source k = Some (JArr ys)"
      and "distinct (map fst source)"
      by (auto simp: mergeKey_other)
    with Cons.IH [of "mergeKey rt entry object"] Cons.prems(2) show ?thesis by simp
  qed
qed

text \<open>
  Claim C3 says that an array held by both files at a key is merged to the two arrays
  in a row with every duplicate removed. An element that is an object stays as often as
  it occurs: the two files of the example hold \<^verbatim>\<open>{"overrides":[{}]}\<close> each, and the
  merged array has two elements, where the first-seen-order union has one.
\<close>

theorem array_union_counterexample:
  "JSON_parse example_runtime (String_trim example_runtime overrides_one)
     = Some (JObj [(''overrides'', JArr [JObj []])])
   \<and> mergeWith example_runtime (JObj [(''overrides'', JArr [JObj []])])
        (JObj [(''overrides'', JArr [JObj []])])
     = JObj [(''overrides'', JArr [JObj [], JObj []])]
   \<and> first_seen ([JObj []] @ [JObj []] :: int json list) = [JObj []]"
  by code_simp

text \<open>
  Claim C3, amended. For every pair of JSON objects (with distinct property names) that
  the existing file and the template file parse to, and every key other than
  \<^verbatim>\<open>__proto__\<close> at which both hold an array, \<^verbatim>\<open>mergeJsonFile\<close> writes an object whose
  value at that key is the existing array followed by the template's array, with the
  repeated occurrences of null, booleans, numbers and strings removed (the first
  occurrence stays) and every array and object element kept. Where all elements are
  such primitive values this is the first-seen-order union of the two arrays.
\<close>

theorem mergeJsonFile_array_union:
  assumes "lookup fs existing = Some (File existingBytes)"
    and "JSON_parse rt (String_trim rt existingBytes) = Some (JObj A)"
    and "JSON_parse rt (String_trim rt templateBytes) = Some (JObj B)"
    and "distinct (map fst B)"
    and "key \<noteq> ''__proto__''"
    and "map_of A key = Some (JArr xs)"
    and "map_of B key = Some (JArr ys)"
  shows "\<exists>merged.
      mergeJsonFile rt existing templateBytes fs
        = Done (put fs existing (File (JSON_stringify rt (JObj merged))))
      \<and> map_of merged key = Some (JArr (first_seen_primitive (xs @ ys)))
      \<and> ((\<forall>x \<in> set (xs @ ys). \<not> isObject x)
          \<longrightarrow> map_of merged key = Some (JArr (first_seen (xs @ ys))))"
proof -
  from assms(1) have r: "resolve fs existing = Inr (File existingBytes)"
    by (simp add: lookup_Some)
  then have "mergeJsonFile rt existing templateBytes fs
      = Done (put fs existing (File (JSON_stringify rt (JObj (baseMerge rt A B)))))"
    using assms(2,3) by (simp add: mergeJsonFile_def readFileSync_def writeFileSync_def)
  moreover have "map_of (baseMerge rt A B) key = Some (JArr (first_seen_primitive (xs @ ys)))"
    using baseMerge_arrays [OF assms(4,5,6,7)] by (simp add: Array_from_Set_first_seen)
  ultimately show ?thesis
    using first_seen_primitive_all [of "xs @ ys"] by auto
qed

theorem mergeJsonFile_array_union_witness:
  "lookup example_home [''home'', ''proj'', ''package.json''] = Some (File files_lib_bin)
   \<and> (\<exists>merged.
        mergeJsonFile example_runtime [''home'', ''proj'', ''package.json''] files_bin_src
          example_home
          = Done (put example_home [''home'', ''proj'', ''package.json'']
              (File (JSON_stringify example_runtime (JObj merged))))
        \<and> map_of merged ''files'' = Some (JArr [JStr ''lib'', JStr ''bin'', JStr ''src'']))"
proof -
  have l: "lookup example_home [''home'', ''proj'', ''package.json''] = Some (File files_lib_bin)"
    by (simp add: lookup_def example_home_def)
  have a: "JSON_parse example_runtime (String_trim example_runtime files_lib_bin)
      = Some (JObj [(''files'', JArr [JStr ''lib'', JStr ''bin''])])"
    by code_simp
  have b: "JSON_parse example_runtime (String_trim example_runtime files_bin_src)
      = Some (JObj [(''files'', JArr [JStr ''bin'', JStr ''src''])])"
    by code_simp
  have d: "distinct (map fst [(''files'', JArr [JStr ''bin'', JStr ''src''] :: int json)])"
    by simp
  have k: "''files'' \<noteq> ''__proto__''" by simp
  have x: "map_of [(''files'', JArr [JStr ''lib'', JStr ''bin''] :: int json)] ''files''
      = Some (JArr [JStr ''lib'', JStr ''bin''])"
    by simp
  have y: "map_of [(''files'', JArr [JStr ''bin'', JStr ''src''] :: int json)] ''files''
      = Some (JArr [JStr ''bin'', JStr ''src''])"
    by simp
  have u: "first_seen_primitive ([JStr ''lib'', JStr ''bin''] @ [JStr ''bin'', JStr ''src''])
      = [JStr ''lib'', JStr ''bin'', JStr ''src'' :: int json]"
    by simp
  from mergeJsonFile_array_union [OF l a b d k x y] l u show ?thesis
    by auto
qed

subsection \<open>The append strategy\<close>

text \<open>
  Claim C4. For every existing destination file and template file that reach the append
  strategy, \<^verbatim>\<open>appendFiles\<close> leaves the file system as it was, whether it returns or
  throws on reading the destination; so does the strategy switch on \<^verbatim>\<open>append\<close>. The
  merged lines are never written.
\<close>

theorem appendFiles_writes_nothing:
  "state_of (appendFiles existing template fs) = fs
   \<and> state_of (switch_mergeStrategy rt (Some ''append'') existing template fs) = fs"
  by (simp add: appendFiles_def switch_mergeStrategy_def split: sum.split)

theorem appendFiles_writes_nothing_witness:
  "state_of (appendFiles [''home'', ''proj'', ''.gitignore''] ''node_modules'' example_home)
     = example_home
   \<and> state_of (switch_mergeStrategy example_runtime (Some ''append'')
        [''home'', ''proj'', ''.gitignore''] ''node_modules'' example_home) = example_home"
  by (rule appendFiles_writes_nothing)

subsection \<open>The strategy switch\<close>

lemma writeFileSync_error:
  "writeFileSync c fs p = Thrown e fs' \<Longrightarrow> e \<noteq> UnhandledCaseError m"
  by (auto simp: writeFileSync_def split: sum.splits node.splits error.splits
      dest: resolve_error(1))

lemma mkdirSync_error:
  "mkdirSync fs p = Thrown e fs' \<Longrightarrow> e \<noteq> UnhandledCaseError m"
  by (auto simp: mkdirSync_def split: sum.splits node.splits error.splits
      dest: resolve_error(1))

lemma readFileSync_error:
  "readFileSync fs p = Inl e \<Longrightarrow> e \<noteq> UnhandledCaseError m"
  by (auto simp: readFileSync_def split: sum.splits node.splits dest: resolve_error(1))

lemma mergeJsonFile_error:
  "mergeJsonFile rt p c fs = Thrown e fs' \<Longrightarrow> e \<noteq> UnhandledCaseError m"
  by (auto simp: mergeJsonFile_def split: sum.splits option.splits
      dest: readFileSync_error writeFileSync_error)

lemma appendFiles_error:
  "appendFiles p c fs = Thrown e fs' \<Longrightarrow> e \<noteq> UnhandledCaseError m"
  by (auto simp: appendFiles_def split: sum.splits dest: readFileSync_error)

lemma mergeFiles_strategy:
  "isMergeable name \<Longrightarrow>
     map_of mergeFiles name = Some ''json'' \<or> map_of mergeFiles name = Some ''append''"
  by (auto simp: isMergeable_def mergeFiles_def)

lemma switch_mergeStrategy_error:
  "isMergeable name \<Longrightarrow>
   switch_mergeStrategy rt (map_of mergeFiles name) p c fs = Thrown e fs' \<Longrightarrow>
   e \<noteq> UnhandledCaseError m"
  using mergeFiles_strategy [of name]
  by (auto simp: switch_mergeStrategy_def dest: mergeJsonFile_error appendFiles_error
      split: if_splits)

lemma copyTemplate_never_unhandled:
  "copyTemplate rt t dest options fs \<noteq> Thrown (UnhandledCaseError m) fs'"
  "copyTemplate_files rt files dest options fs \<noteq> Thrown (UnhandledCaseError m) fs'"
  "copyTemplate_file rt fname t dest options fs \<noteq> Thrown (UnhandledCaseError m) fs'"
  "copyTemplate_overrides rt overrides dest options fs \<noteq> Thrown (UnhandledCaseError m) fs'"
proof (induction rt t dest options fs and rt files dest options fs
    and rt fname t dest options fs and rt overrides dest options fs
    arbitrary: fs' and fs' and fs' and fs'
    rule: copyTemplate_induct)
  case (4 rt fname t files dest options fs)
  then show ?case by (auto split: outcome.splits)
next
  case (5 rt fname entries dest options fs)
  then show ?case
    by (auto split: outcome.splits if_splits dest: mkdirSync_error)
next
  case (6 rt fname c dest options fs)
  show ?case
    by (auto simp: copyFileSync_def dest: writeFileSync_error switch_mergeStrategy_error)
next
  case (9 rt override entries overrides dest options fs)
  then show ?case by (auto split: outcome.splits)
qed simp_all

text \<open>
  Claim C7. For every file name that \<^verbatim>\<open>isMergeable\<close> accepts, the strategy that the
  merge table gives is \<^verbatim>\<open>json\<close> or \<^verbatim>\<open>append\<close>, and \<^verbatim>\<open>copyTemplate\<close> never throws
  the unhandled-case error, whatever the template, the destination and the options are.
  On any other strategy value the switch throws that error, with the message
  \<^verbatim>\<open>Unhandled file merge strategy\<close>, and leaves the file system as it is.
\<close>

theorem unhandled_case_unreachable:
  "(isMergeable name \<longrightarrow>
      map_of mergeFiles name = Some ''json'' \<or> map_of mergeFiles name = Some ''append'')
   \<and> copyTemplate rt t dest options fs \<noteq> Thrown (UnhandledCaseError m) fs'
   \<and> (strategy \<noteq> Some ''json'' \<and> strategy \<noteq> Some ''append'' \<longrightarrow>
        switch_mergeStrategy rt strategy target bytes fs
          = Thrown (UnhandledCaseError ''Unhandled file merge strategy'') fs)"
  by (simp add: mergeFiles_strategy copyTemplate_never_unhandled(1)
      switch_mergeStrategy_def new_UnhandledCaseError_def)

theorem unhandled_case_unreachable_witness:
  "isMergeable ''package.json''
   \<and> map_of mergeFiles ''package.json'' = Some ''json''
   \<and> copyTemplate example_runtime (Dir [(''package.json'', File files_bin_src)])
        [''home'', ''proj''] [] example_home
     \<noteq> Thrown (UnhandledCaseError ''Unhandled file merge strategy'') example_home
   \<and> switch_mergeStrategy example_runtime (Some ''yaml'')
        [''home'', ''proj'', ''package.json''] files_bin_src example_home
     = Thrown (UnhandledCaseError ''Unhandled file merge strategy'') example_home"
proof -
  have i: "isMergeable ''package.json''" and j: "map_of mergeFiles ''package.json'' = Some ''json''"
    by code_simp+
  have y: "Some ''yaml'' \<noteq> Some ''json'' \<and> Some ''yaml'' \<noteq> Some ''append''"
    by simp
  from unhandled_case_unreachable
    [of "''package.json''" example_runtime "Dir [(''package.json'', File files_bin_src)]"
      "[''home'', ''proj'']" "[]" example_home "''Unhandled file merge strategy''" example_home
      "Some ''yaml''" "[''home'', ''proj'', ''package.json'']" files_bin_src]
    i j y
  show ?thesis by blast
qed

subsection \<open>Override directories\<close>

lemma copyTemplate_overrides_none:
  "copyTemplate_overrides rt overrides dest [] fs = Done fs"
proof (induction overrides)
  case Nil
  show ?case by simp
next
  case (Cons entry overrides)
  then show ?case by (cases entry; cases "snd entry") auto
qed

lemma without_overrides_empty_options:
  "options = [] \<Longrightarrow>
     copyTemplate rt t dest options fs = copyTemplate rt (without_overrides t) dest options fs"
  "options = [] \<Longrightarrow>
     copyTemplate_files rt files dest options fs
       = copyTemplate_files rt (without_overrides_in files) dest options fs"
  "options = [] \<Longrightarrow>
     copyTemplate_file rt fname t dest options fs
       = (if is_Dir t \<and> fname = ''.tsukemono'' then Done fs
          else copyTemplate_file rt fname (without_overrides t) dest options fs)"
  "options = [] \<Longrightarrow> copyTemplate_overrides rt overrides dest options fs = Done fs"
proof (induction rt t dest options fs and rt files dest options fs
    and rt fname t dest options fs and rt overrides dest options fs
    rule: copyTemplate_induct)
  case (4 rt fname t files dest options fs)
  show ?case
  proof (cases t)
    case (File c)
    with 4 show ?thesis by (simp split: outcome.split)
  next
    case (Dir sub)
    with 4 show ?thesis
      by (auto simp: copyTemplate_overrides_none split: outcome.split)
  qed
next
  case (5 rt fname entries dest options fs)
  then show ?case
    by (auto simp: copyTemplate_overrides_none split: outcome.split)
qed (simp_all add: copyTemplate_overrides_none)

text \<open>
  Claim C10. The override tree of a selected option is composed with the empty options
  list, whatever options were selected. So composing the overrides of a \<^verbatim>\<open>.tsukemono\<close>
  directory has the same outcome as composing them with every \<^verbatim>\<open>.tsukemono\<close>
  directory inside the override trees taken out: a nested override is never applied.
\<close>

theorem nested_overrides_never_applied:
  "(strip_with override \<in> set options \<longrightarrow>
      copyTemplate_overrides rt [(override, Dir entries)] dest options fs
        = copyTemplate rt (Dir entries) dest [] fs)
   \<and> copyTemplate_overrides rt overrides dest options fs
     = copyTemplate_overrides rt (map (\<lambda>(name, t). (name, without_overrides t)) overrides)
         dest options fs
   \<and> copyTemplate_file rt ''.tsukemono'' (Dir overrides) dest options fs
     = copyTemplate_file rt ''.tsukemono''
         (Dir (map (\<lambda>(name, t). (name, without_overrides t)) overrides)) dest options fs"
proof -
  have "copyTemplate_overrides rt overrides dest options fs
     = copyTemplate_overrides rt (map (\<lambda>(name, t). (name, without_overrides t)) overrides)
         dest options fs"
  proof (induction overrides arbitrary: fs)
    case Nil
    show ?case by simp
  next
    case (Cons entry overrides)
    obtain name t where entry: "entry = (name, t)" by (cases entry)
    show ?case
    proof (cases t)
      case (File c)
      with entry Cons show ?thesis by simp
    next
      case (Dir sub)
      have "copyTemplate rt (Dir sub) dest [] fs
          = copyTemplate rt (Dir (without_overrides_in sub)) dest [] fs"
        using without_overrides_empty_options(1) [of "[]" rt "Dir sub" dest fs] by simp
      with entry Dir Cons show ?thesis
        by (simp split: outcome.split)
    qed
  qed
  then show ?thesis by (simp split: outcome.split)
qed

theorem nested_overrides_never_applied_witness:
  "strip_with ''with-eslint'' \<in> set [''eslint'']
   \<and> copyTemplate_overrides example_runtime example_overrides [''home'', ''proj''] [''eslint'']
        example_empty
     = copyTemplate_overrides example_runtime
         [(''with-eslint'', Dir [(''.eslintignore'', File ''dist'')])]
         [''home'', ''proj''] [''eslint''] example_empty
   \<and> copyTemplate_overrides example_runtime example_overrides [''home'', ''proj''] [''eslint'']
        example_empty
     = Done (Dir [(''home'', Dir [(''proj'', Dir [(''.eslintignore'', File ''dist'')])])])"
proof -
  have s: "strip_with ''with-eslint'' \<in> set [''eslint'']" by code_simp
  have p: "map (\<lambda>(name, t). (name, without_overrides t)) example_overrides
      = [(''with-eslint'', Dir [(''.eslintignore'', File ''dist'')])]"
    by (simp add: example_overrides_def)
  have v: "copyTemplate_overrides example_runtime
         [(''with-eslint'', Dir [(''.eslintignore'', File ''dist'')])]
         [''home'', ''proj''] [''eslint''] example_empty
     = Done (Dir [(''home'', Dir [(''proj'', Dir [(''.eslintignore'', File ''dist'')])])])"
    by code_simp
  from nested_overrides_never_applied
    [of "''with-eslint''" "[''eslint'']" example_runtime "[]" "[''home'', ''proj'']"
      example_empty example_overrides]
  have "copyTemplate_overrides example_runtime example_overrides [''home'', ''proj''] [''eslint'']
        example_empty
     = copyTemplate_overrides example_runtime
         (map (\<lambda>(name, t). (name, without_overrides t)) example_overrides)
         [''home'', ''proj''] [''eslint''] example_empty"
    by blast
  with s p v show ?thesis by simp
qed

subsection \<open>The orchestrator\<close>

text \<open>
  Claim C6. If the target directory exists with at least one entry and the user answers
  no to the confirmation, \<^verbatim>\<open>init\<close> returns at once with the file system unchanged:
  nothing is deleted, and no template is read or composed, whatever the templates and
  the options are.
\<close>

theorem init_declined_changes_nothing:
  assumes "readdirSync fs (path_join cwd (init_targetDir argv0 ans)) = Inr existing"
    and "existing \<noteq> []"
    and "\<not> ans_yes ans"
  shows "init rt templates cwd argv0 ans fs = Done fs"
proof -
  from assms(1) have "existsSync fs (path_join cwd (init_targetDir argv0 ans))"
    by (auto simp: readdirSync_def existsSync_def split: sum.splits)
  with assms show ?thesis
    by (simp add: init_def)
qed

theorem init_declined_changes_nothing_witness:
  "readdirSync example_home (path_join [''home''] (init_targetDir (Some ''proj'') example_answers))
     = Inr [''.gitignore'', ''notes.txt'', ''package.json'']
   \<and> \<not> ans_yes example_answers
   \<and> init example_runtime [] [''home''] (Some ''proj'') example_answers example_home
     = Done example_home"
proof -
  have r: "readdirSync example_home
      (path_join [''home''] (init_targetDir (Some ''proj'') example_answers))
    = Inr [''.gitignore'', ''notes.txt'', ''package.json'']"
    by code_simp
  have n: "[''.gitignore'', ''notes.txt'', ''package.json''] \<noteq> []" by simp
  have y: "\<not> ans_yes example_answers" by (simp add: example_answers_def)
  from init_declined_changes_nothing [OF r n y, of example_runtime "[]"] r y
  show ?thesis by blast
qed

lemma init_forEach_plan:
  "init_forEach rt templates root options mergedOptions fs =
   compose_plan rt templates root
     (map (\<lambda>i. (''with-'' @ options ! i, mergedOptions @ take i options)) [0 ..< length options]) fs"
proof (induction options arbitrary: mergedOptions fs)
  case Nil
  show ?case by simp
next
  case (Cons option options)
  have "map (\<lambda>i. (''with-'' @ (option # options) ! i, mergedOptions @ take i (option # options)))
          [0 ..< length (option # options)]
      = (''with-'' @ option, mergedOptions)
        # map (\<lambda>i. (''with-'' @ options ! i, (mergedOptions @ [option]) @ take i options))
            [0 ..< length options]"
    by (simp add: upt_conv_Cons map_Suc_upt [symmetric] del: upt_Suc)
  then show ?case
    by (simp add: Cons.IH split: outcome.split)
qed

text \<open>
  Claim C5 says that the base template is composed with no option applied. It is
  composed with all the selected options: with \<^verbatim>\<open>eslint\<close> selected, the override of the
  example's base template for \<^verbatim>\<open>eslint\<close> is in the target after \<^verbatim>\<open>init\<close>, and it is
  not there after the plan of the claim.
\<close>

theorem base_without_options_counterexample:
  "lookup (state_of (init_compose example_runtime example_templates [''home'', ''proj'']
        [''eslint''] example_empty)) [''home'', ''proj'', ''.eslintignore'']
     = Some (File ''dist'')
   \<and> lookup (state_of (compose_plan example_runtime example_templates [''home'', ''proj'']
        (specified_plan [''eslint'']) example_empty)) [''home'', ''proj'', ''.eslintignore'']
     = None"
  by code_simp

text \<open>
  Claim C5, amended. For every list of selected options, \<^verbatim>\<open>init\<close> composes the base
  template with the whole list of selected options, then, for each option in the order
  of the selection, the template \<^verbatim>\<open>with-<option>\<close> with exactly the options selected
  before it (the option is added to the list after its call); it stops at the first
  call that throws. This holds for \<^verbatim>\<open>init\<close> from the option prompt on, and so for
  \<^verbatim>\<open>init\<close> on a target directory that exists and is empty.
\<close>

theorem init_compose_plan:
  "init_compose rt templates root options fs =
     compose_plan rt templates root
       ((''repo-base'', options)
        # map (\<lambda>i. (''with-'' @ options ! i, take i options)) [0 ..< length options]) fs
   \<and> (readdirSync fs (path_join cwd (init_targetDir argv0 ans)) = Inr [] \<longrightarrow>
        init rt templates cwd argv0 ans fs =
          compose_plan rt templates (path_join cwd (init_targetDir argv0 ans))
            ((''repo-base'', ans_options ans)
             # map (\<lambda>i. (''with-'' @ ans_options ans ! i, take i (ans_options ans)))
                 [0 ..< length (ans_options ans)]) fs)"
proof -
  have c: "init_compose rt templates root options fs =
     compose_plan rt templates root
       ((''repo-base'', options)
        # map (\<lambda>i. (''with-'' @ options ! i, take i options)) [0 ..< length options]) fs"
    for root options fs
    using init_forEach_plan [of rt templates root options "[]"]
    by (simp add: init_compose_def split: outcome.split)
  have "init rt templates cwd argv0 ans fs
      = init_compose rt templates (path_join cwd (init_targetDir argv0 ans)) (ans_options ans) fs"
    if "readdirSync fs (path_join cwd (init_targetDir argv0 ans)) = Inr []"
  proof -
    from that have "existsSync fs (path_join cwd (init_targetDir argv0 ans))"
      by (auto simp: readdirSync_def existsSync_def split: sum.splits)
    with that show ?thesis by (simp add: init_def)
  qed
  with c show ?thesis by simp
qed

theorem init_compose_plan_witness:
  "init_compose example_runtime example_templates [''home'', ''proj''] [''eslint'', ''prettier'']
       example_empty
     = compose_plan example_runtime example_templates [''home'', ''proj'']
         [(''repo-base'', [''eslint'', ''prettier'']),
          (''with-eslint'', []),
          (''with-prettier'', [''eslint''])] example_empty
   \<and> readdirSync example_empty (path_join [''home''] (init_targetDir (Some ''proj'') example_answers))
     = Inr []
   \<and> init example_runtime example_templates [''home''] (Some ''proj'') example_answers example_empty
     = compose_plan example_runtime example_templates [''home'', ''proj'']
         [(''repo-base'', [''eslint'']), (''with-eslint'', [])] example_empty"
proof -
  have r: "readdirSync example_empty
      (path_join [''home''] (init_targetDir (Some ''proj'') example_answers)) = Inr []"
    by code_simp
  have j: "path_join [''home''] (init_targetDir (Some ''proj'') example_answers)
      = [''home'', ''proj'']"
    by code_simp
  have o: "ans_options example_answers = [''eslint'']"
    by (simp add: example_answers_def)
  have u: "[0 ..< length [''eslint'', ''prettier'']] = [0, 1]" "[0 ..< length [''eslint'']] = [0]"
    by (simp_all add: upt_conv_Cons)
  from init_compose_plan
    [of example_runtime example_templates "[''home'', ''proj'']" "[''eslint'', ''prettier'']"
      example_empty "[''home'']" "Some ''proj''" example_answers]
    r j o u
  show ?thesis by simp
qed

subsection \<open>The base template in an empty directory\<close>

lemma copy_plain:
  "plain t \<and> is_Dir t \<and> resolve fs dest = Inr (Dir [])
     \<longrightarrow> copyTemplate rt t dest options fs = Done (put fs dest t)"
  "\<forall>ds. plain_entries files \<and> distinct (map fst files) \<and> resolve fs dest = Inr (Dir ds)
        \<and> set (map fst files) \<inter> set (map fst ds) = {}
     \<longrightarrow> copyTemplate_files rt files dest options fs = Done (put fs dest (Dir (ds @ files)))"
  "\<forall>ds. valid_name fname \<and> take 2 fname \<noteq> ''._'' \<and> \<not> (is_Dir t \<and> fname = ''.tsukemono'')
        \<and> plain t \<and> resolve fs dest = Inr (Dir ds) \<and> fname \<notin> set (map fst ds)
     \<longrightarrow> copyTemplate_file rt fname t dest options fs
           = Done (put fs dest (Dir (ds @ [(fname, t)])))"
  "copyTemplate_overrides rt overrides dest options fs
     = copyTemplate_overrides rt overrides dest options fs"
proof (induction rt t dest options fs and rt files dest options fs
    and rt fname t dest options fs and rt overrides dest options fs
    rule: copyTemplate_induct)
  case (2 rt files dest options fs)
  from 2 [rule_format, of "[]"] show ?case by simp
next
  case (4 rt fname t files dest options fs)
  show ?case
  proof (intro allI impI)
    fix ds
    assume h: "plain_entries ((fname, t) # files) \<and> distinct (map fst ((fname, t) # files))
        \<and> resolve fs dest = Inr (Dir ds)
        \<and> set (map fst ((fname, t) # files)) \<inter> set (map fst ds) = {}"
    let ?fs1 = "put fs dest (Dir (ds @ [(fname, t)]))"
    from h 4(1) have step: "copyTemplate_file rt fname t dest options fs = Done ?fs1"
      by auto
    from h have r1: "resolve ?fs1 dest = Inr (Dir (ds @ [(fname, t)]))"
      by (simp add: resolve_put(1))
    from h have "plain_entries files \<and> distinct (map fst files)
        \<and> set (map fst files) \<inter> set (map fst (ds @ [(fname, t)])) = {}"
      by auto
    with 4(2) [OF step] r1
    have "copyTemplate_files rt files dest options ?fs1
        = Done (put ?fs1 dest (Dir ((ds @ [(fname, t)]) @ files)))"
      by blast
    with step show "copyTemplate_files rt ((fname, t) # files) dest options fs
        = Done (put fs dest (Dir (ds @ (fname, t) # files)))"
      by (simp add: put_put(1))
  qed
next
  case (5 rt fname entries dest options fs)
  show ?case
  proof (intro allI impI)
    fix ds
    assume h: "valid_name fname \<and> take 2 fname \<noteq> ''._''
        \<and> \<not> (is_Dir (Dir entries) \<and> fname = ''.tsukemono'')
        \<and> plain (Dir entries) \<and> resolve fs dest = Inr (Dir ds) \<and> fname \<notin> set (map fst ds)"
    then have n: "fname \<noteq> ''.tsukemono''" and a: "actualFileName fname = fname"
      and j: "path_join dest fname = dest @ [fname]" and m: "map_of ds fname = None"
      and r: "resolve fs dest = Inr (Dir ds)"
      by (auto simp: actualFileName_plain valid_name_def map_of_eq_None_iff
          intro: path_join_plain)
    let ?fs1 = "put fs (dest @ [fname]) (Dir [])"
    from r m have e: "\<not> existsSync fs (dest @ [fname])"
      by (simp add: existsSync_def resolve_child)
    from r m have mk: "mkdirSync fs (dest @ [fname]) = Done ?fs1"
      by (rule mkdirSync_new)
    from r have "resolve ?fs1 (dest @ [fname]) = Inr (Dir [])"
      by (rule resolve_put_new_child)
    with 5(2) [of ?fs1] n a j e mk h
    have "copyTemplate rt (Dir entries) (dest @ [fname]) options ?fs1
        = Done (put ?fs1 (dest @ [fname]) (Dir entries))"
      by simp
    with n a j e mk
    have "copyTemplate_file rt fname (Dir entries) dest options fs
        = Done (put fs (dest @ [fname]) (Dir entries))"
      by (simp add: put_put(1))
    with r m show "copyTemplate_file rt fname (Dir entries) dest options fs
        = Done (put fs dest (Dir (ds @ [(fname, Dir entries)])))"
      by (simp add: put_new_child)
  qed
next
  case (6 rt fname c dest options fs)
  show ?case
  proof (intro allI impI)
    fix ds
    assume h: "valid_name fname \<and> take 2 fname \<noteq> ''._''
        \<and> \<not> (is_Dir (File c) \<and> fname = ''.tsukemono'')
        \<and> plain (File c) \<and> resolve fs dest = Inr (Dir ds) \<and> fname \<notin> set (map fst ds)"
    then have a: "actualFileName fname = fname"
      and j: "path_join dest fname = dest @ [fname]" and m: "map_of ds fname = None"
      and r: "resolve fs dest = Inr (Dir ds)"
      by (auto simp: actualFileName_plain valid_name_def map_of_eq_None_iff
          intro: path_join_plain)
    from r m have "lookup fs (dest @ [fname]) = None"
      and "lookup fs (butlast (dest @ [fname])) = Some (Dir ds)"
      by (simp_all add: lookup_def resolve_child)
    then have "copyTemplate_file rt fname (File c) dest options fs
        = Done (put fs (dest @ [fname]) (File c))"
      using a j by (simp add: existsSync_lookup copyFileSync_def writeFileSync_new)
    with r m show "copyTemplate_file rt fname (File c) dest options fs
        = Done (put fs dest (Dir (ds @ [(fname, File c)])))"
      by (simp add: put_new_child)
  qed
qed (simp_all add: put_same(1))

text \<open>
  Claim C8 says that the base template composed into an empty directory gives a tree
  identical to the template's. The names are not the same where the template has an
  entry with a leading \<^verbatim>\<open>._\<close>: the template that holds \<^verbatim>\<open>._gitignore\<close> leaves
  \<^verbatim>\<open>.gitignore\<close> in the empty directory.
\<close>

theorem identical_tree_counterexample:
  "lookup example_empty [''home'', ''proj''] = Some (Dir [])
   \<and> lookup (state_of (copyTemplate example_runtime (Dir [(''._gitignore'', File ''node_modules'')])
        [''home'', ''proj''] [] example_empty)) [''home'', ''proj'']
     = Some (Dir [(''.gitignore'', File ''node_modules'')])
   \<and> Dir [(''.gitignore'', File ''node_modules'')] \<noteq> Dir [(''._gitignore'', File ''node_modules'')]"
  by code_simp

text \<open>
  Claim C8, amended. Let the template be a tree of directories and regular files whose
  names are proper entry names, distinct within each directory, none starting with
  \<^verbatim>\<open>._\<close>, and with no directory called \<^verbatim>\<open>.tsukemono\<close>. Composing it into an existing
  empty directory returns normally, for every options list, and the destination then
  holds exactly the template's tree: the same entries in the same order with the same
  bytes. Nothing else in the file system changes.
\<close>

theorem plain_template_reproduced:
  assumes "plain (Dir entries)" and "lookup fs dest = Some (Dir [])"
  shows "copyTemplate rt (Dir entries) dest options fs = Done (put fs dest (Dir entries))
    \<and> lookup (put fs dest (Dir entries)) dest = Some (Dir entries)"
  using assms copy_plain(1) [of "Dir entries" fs dest rt options]
  by (simp add: lookup_Some lookup_put_same)

theorem plain_template_reproduced_witness:
  "plain example_plain
   \<and> lookup example_empty [''home'', ''proj''] = Some (Dir [])
   \<and> copyTemplate example_runtime example_plain [''home'', ''proj''] [''eslint''] example_empty
     = Done (Dir [(''home'', Dir [(''proj'', example_plain)])])
   \<and> lookup (Dir [(''home'', Dir [(''proj'', example_plain)])]) [''home'', ''proj'']
     = Some example_plain"
proof -
  have p: "plain (Dir [(''README.md'', File ''hello''),
      (''src'', Dir [(''index.ts'', File ''export {}'')])])"
    by code_simp
  have l: "lookup example_empty [''home'', ''proj''] = Some (Dir [])"
    by code_simp
  have u: "put example_empty [''home'', ''proj'']
      (Dir [(''README.md'', File ''hello''), (''src'', Dir [(''index.ts'', File ''export {}'')])])
    = Dir [(''home'', Dir [(''proj'', Dir [(''README.md'', File ''hello''),
        (''src'', Dir [(''index.ts'', File ''export {}'')])])])]"
    by (simp add: example_empty_def)
  from plain_template_reproduced [OF p l, of example_runtime "[''eslint'']"] p l u
  show ?thesis by (simp add: example_plain_def)
qed

subsection \<open>The renaming of a leading dot and underscore\<close>







end
